theory Spec2Isabelle
  imports Main "HOL-Library.Sublist" "HOL-Library.AList" "HOL-Library.Code_Target_Nat"
begin

section \<open>JavaScript values\<close>

text \<open>
  The rows that the backend delivers are parsed JSON, and \<open>transformDemoData\<close> takes them
  at type \<open>any\<close>. A value is therefore one of the JSON shapes, plus \<open>undefined\<close> for a
  property that is not there. A string is a list of code units, one \<open>char\<close> per unit,
  so the strings of the model are those over the units 0 to 255. An object is its list
  of own properties; the first entry for a key is the binding.
\<close>

text \<open>
  A number is a double. Apart from \<open>NaN\<close>, the infinities and the two zeros, it is
  kept as its shortest decimal form, the one \<open>Number.prototype.toString\<close> starts from:
  a sign, the digits \<open>s\<close> without leading or trailing zero, read as a natural number,
  and the exponent \<open>n\<close>, the value being \<open>s\<close> times ten to the power \<open>n - k\<close> for the
  \<open>k\<close> digits of \<open>s\<close>. The flag is set for a negative number. Trailing zeros of \<open>s\<close>
  do not change the value, and \<open>s = 0\<close> stands for zero.
\<close>

datatype number =
    NumNaN
  | NumInfinity bool
  | NumZero bool
  | NumFinite bool nat int

datatype jsval =
    JUndefined
  | JNull
  | JBool bool
  | JNum number
  | JStr string
  | JArr "jsval list"
  | JObj "(string \<times> jsval) list"

text \<open>What a JavaScript expression can throw: a \<open>TypeError\<close> of the engine, or a value
  thrown by a \<open>throw\<close> statement.\<close>

datatype thrown = TypeError | Thrown jsval

definition nullish :: "jsval \<Rightarrow> bool" where
  "nullish v = (v = JUndefined \<or> v = JNull)"

text \<open>\<open>ToBoolean\<close>: the falsy values are \<open>undefined\<close>, \<open>null\<close>, \<open>false\<close>, the
  zeros, \<open>NaN\<close> and the empty string.\<close>

fun number_truthy :: "number \<Rightarrow> bool" where
  "number_truthy NumNaN = False"
| "number_truthy (NumZero neg) = False"
| "number_truthy (NumInfinity neg) = True"
| "number_truthy (NumFinite neg s n) = (s \<noteq> 0)"

fun truthy :: "jsval \<Rightarrow> bool" where
  "truthy JUndefined = False"
| "truthy JNull = False"
| "truthy (JBool b) = b"
| "truthy (JNum x) = number_truthy x"
| "truthy (JStr s) = (s \<noteq> [])"
| "truthy (JArr xs) = True"
| "truthy (JObj kvs) = True"

text \<open>\<open>a || b\<close> and \<open>a ?? b\<close>.\<close>

definition js_or :: "jsval \<Rightarrow> jsval \<Rightarrow> jsval" where
  "js_or a b = (if truthy a then a else b)"

definition js_coalesce :: "jsval \<Rightarrow> jsval \<Rightarrow> jsval" where
  "js_coalesce a b = (if nullish a then b else a)"

subsection \<open>Decimal numerals\<close>

definition digit_char :: "nat \<Rightarrow> char" where
  "digit_char d = char_of (48 + d)"

fun digits :: "nat \<Rightarrow> string" where
  "digits n = (if n < 10 then [digit_char n] else digits (n div 10) @ [digit_char (n mod 10)])"

declare digits.simps [simp del]

text \<open>The digits without the trailing zeros.\<close>

fun strip_zeros :: "nat \<Rightarrow> nat" where
  "strip_zeros m = (if m \<noteq> 0 \<and> m mod 10 = 0 then strip_zeros (m div 10) else m)"

declare strip_zeros.simps [simp del]

text \<open>
  \<open>Number.prototype.toString\<close> in radix 10, from the digits \<open>s\<close>, their count \<open>k\<close>
  and the exponent \<open>n\<close>: an integer of at most 21 digits is written out, with \<open>n - k\<close>
  zeros after the digits; for \<open>0 < n \<le> 21\<close> the point stands after \<open>n\<close> digits; for
  \<open>-6 < n \<le> 0\<close> the digits follow \<open>0.\<close> and \<open>-n\<close> zeros; every other number is in
  exponent notation, with the exponent \<open>n - 1\<close> and its sign.
\<close>

definition finite_toString :: "nat \<Rightarrow> int \<Rightarrow> string" where
  "finite_toString s n =
     (let ds = digits (strip_zeros s); k = int (length ds)
      in if k \<le> n \<and> n \<le> 21 then ds @ replicate (nat (n - k)) (CHR ''0'')
         else if 0 < n \<and> n \<le> 21 then take (nat n) ds @ ''.'' @ drop (nat n) ds
         else if - 6 < n \<and> n \<le> 0 then ''0.'' @ replicate (nat (- n)) (CHR ''0'') @ ds
         else (let e = n - 1;
                   es = (if e < 0 then ''-'' else ''+'') @ digits (nat \<bar>e\<bar>)
               in if k = 1 then ds @ ''e'' @ es
                  else take 1 ds @ ''.'' @ drop 1 ds @ ''e'' @ es))"

fun number_toString :: "number \<Rightarrow> string" where
  "number_toString NumNaN = ''NaN''"
| "number_toString (NumZero neg) = ''0''"
| "number_toString (NumInfinity neg) = (if neg then ''-Infinity'' else ''Infinity'')"
| "number_toString (NumFinite neg s n) =
     (if s = 0 then ''0''
      else if neg then CHR ''-'' # finite_toString s n
      else finite_toString s n)"

text \<open>The number of a natural that a double holds exactly (below \<open>2^53\<close>): the
  literals of the source, and the length of an array or a string. Its shortest decimal
  form is its own digits without the trailing zeros.\<close>

definition number_of_nat :: "nat \<Rightarrow> number" where
  "number_of_nat m =
     (if m = 0 then NumZero False
      else NumFinite False (strip_zeros m) (int (length (digits m))))"

subsection \<open>Properties\<close>

text \<open>The own enumerable string-keyed properties of a value, as property lookup and
  object spread see them: the entries of an object, the indexed elements of an array,
  the indexed units of a string, and nothing for the other primitives.\<close>

definition indexed :: "jsval list \<Rightarrow> (string \<times> jsval) list" where
  "indexed xs = zip (map digits [0 ..< length xs]) xs"

fun own_props :: "jsval \<Rightarrow> (string \<times> jsval) list" where
  "own_props (JObj kvs) = kvs"
| "own_props (JArr xs) = indexed xs"
| "own_props (JStr s) = indexed (map (\<lambda>c. JStr [c]) s)"
| "own_props v = []"

fun js_length :: "jsval \<Rightarrow> jsval" where
  "js_length (JArr xs) = JNum (number_of_nat (length xs))"
| "js_length (JStr s) = JNum (number_of_nat (length s))"
| "js_length v = JUndefined"

text \<open>\<open>v.k\<close> on a value that is neither \<open>undefined\<close> nor \<open>null\<close>, for a data
  property \<open>k\<close>: the own property, the \<open>length\<close> of an array or a string, and
  \<open>undefined\<close> when there is none.\<close>

definition js_prop :: "jsval \<Rightarrow> string \<Rightarrow> jsval" where
  "js_prop v k =
     (case map_of (own_props v) k of
        Some x \<Rightarrow> x
      | None \<Rightarrow> (if k = ''length'' then js_length v else JUndefined))"

text \<open>\<open>v.k\<close> in general: reading a property of \<open>undefined\<close> or \<open>null\<close> throws.\<close>

definition get_prop :: "jsval \<Rightarrow> string \<Rightarrow> thrown + jsval" where
  "get_prop v k = (if nullish v then Inl TypeError else Inr (js_prop v k))"

text \<open>\<open>v?.k\<close>: the optional chain yields \<open>undefined\<close> instead of throwing.\<close>

definition opt_prop :: "jsval \<Rightarrow> string \<Rightarrow> jsval" where
  "opt_prop v k = (if nullish v then JUndefined else js_prop v k)"

subsection \<open>\<open>toString()\<close>\<close>

text \<open>
  \<open>v.toString()\<close>. On \<open>undefined\<close> and \<open>null\<close> the property read throws. A parsed
  JSON object inherits \<open>Object.prototype.toString\<close> unless it carries an entry
  \<open>toString\<close> of its own, whose value is never a function, and then the call throws.
  An array joins the strings of its elements with commas, \<open>undefined\<close> and \<open>null\<close>
  elements counting as empty; converting an object element fails in the same way as
  the method call.
\<close>

fun toString :: "jsval \<Rightarrow> thrown + string"
  and join_elems :: "jsval list \<Rightarrow> thrown + string"
where
  "toString JUndefined = Inl TypeError"
| "toString JNull = Inl TypeError"
| "toString (JBool b) = Inr (if b then ''true'' else ''false'')"
| "toString (JNum x) = Inr (number_toString x)"
| "toString (JStr s) = Inr s"
| "toString (JObj kvs) =
     (if map_of kvs ''toString'' \<noteq> None then Inl TypeError else Inr ''[object Object]'')"
| "toString (JArr xs) = join_elems xs"
| "join_elems [] = Inr []"
| "join_elems (x # xs) =
     (case (if x = JUndefined \<or> x = JNull then Inr [] else toString x) of
        Inl e \<Rightarrow> Inl e
      | Inr s \<Rightarrow>
          (case join_elems xs of
             Inl e \<Rightarrow> Inl e
           | Inr r \<Rightarrow> Inr (if xs = [] then s else s @ CHR '','' # r)))"

section \<open>The normalized item\<close>

text \<open>\<open>DemoWithComponent\<close>, the object literal that \<open>transformDemoData\<close> returns. The
  field \<open>id\<close> is named \<open>id'\<close> here.\<close>

record DemoWithComponent =
  id' :: string
  name :: jsval
  demo_slug :: jsval
  preview_url :: jsval
  video_url :: jsval
  updated_at :: jsval
  created_at :: jsval
  user :: jsval
  user_id :: jsval
  component_id :: jsval
  demo_code :: jsval
  demo_dependencies :: jsval
  demo_direct_registry_dependencies :: jsval
  compiled_css :: jsval
  component :: jsval
  tags :: jsval
  embedding :: jsval
  embedding_oai :: jsval
  fts :: jsval
  pro_preview_image_url :: jsval
  view_count :: jsval

text \<open>\<open>{ ...src, user: u }\<close>: the own properties of \<open>src\<close> (none for \<open>undefined\<close>
  and \<open>null\<close>), then \<open>user\<close> set.\<close>

definition spread_with_user :: "jsval \<Rightarrow> jsval \<Rightarrow> jsval" where
  "spread_with_user src u = JObj (AList.update ''user'' u (own_props src))"

text \<open>
  The first field evaluated is \<open>data.id.toString()\<close>, which throws when \<open>data\<close> or
  \<open>data.id\<close> is \<open>undefined\<close> or \<open>null\<close>, or when \<open>toString\<close> is not callable. Every
  later \<open>data.k\<close> reads a property of a \<open>data\<close> that is known not to be nullish.
\<close>

definition transformDemoData :: "jsval \<Rightarrow> thrown + DemoWithComponent" where
  "transformDemoData data =
     (case get_prop data ''id'' of
        Inl e \<Rightarrow> Inl e
      | Inr i \<Rightarrow>
          (case toString i of
             Inl e \<Rightarrow> Inl e
           | Inr s \<Rightarrow> Inr
               \<lparr> id' = s,
                 name = js_prop data ''name'',
                 demo_slug = js_prop data ''demo_slug'',
                 preview_url = js_prop data ''preview_url'',
                 video_url = js_prop data ''video_url'',
                 updated_at = js_prop data ''updated_at'',
                 created_at = js_prop data ''created_at'',
                 user = js_prop data ''user_data'',
                 user_id = opt_prop (js_prop data ''user_data'') ''id'',
                 component_id = opt_prop (js_prop data ''component_data'') ''id'',
                 demo_code = js_or (opt_prop (js_prop data ''component_data'') ''demo_code'') (JStr []),
                 demo_dependencies =
                   js_or (opt_prop (js_prop data ''component_data'') ''dependencies'') (JObj []),
                 demo_direct_registry_dependencies = JObj [],
                 compiled_css = opt_prop (js_prop data ''component_data'') ''compiled_css'',
                 component =
                   spread_with_user (js_prop data ''component_data'') (js_prop data ''component_user_data''),
                 tags = JArr [],
                 embedding = JNull,
                 embedding_oai = JNull,
                 fts = JNull,
                 pro_preview_image_url = JNull,
                 view_count =
                   js_or (js_prop data ''view_count'') (JNum (number_of_nat 0)) \<rparr>))"

section \<open>Strings\<close>

text \<open>\<open>String.prototype.toLowerCase\<close> on the units 0 to 255: the letters A to Z and the
  accented capitals 0xC0 to 0xDE, the multiplication sign 0xD7 apart, move up by 32;
  every other unit stays. On these strings the conversion acts unit by unit.\<close>

definition lower_unit :: "char \<Rightarrow> char" where
  "lower_unit c =
     (let n = (of_char c :: nat)
      in if (65 \<le> n \<and> n \<le> 90) \<or> (192 \<le> n \<and> n \<le> 222 \<and> n \<noteq> 215)
         then char_of (n + 32) else c)"

definition toLowerCase :: "string \<Rightarrow> string" where
  "toLowerCase s = map lower_unit s"

text \<open>\<open>s.includes(q)\<close>: \<open>q\<close> occurs in \<open>s\<close> at some position, tried from the left.\<close>

fun str_includes :: "string \<Rightarrow> string \<Rightarrow> bool" where
  "str_includes [] q = (q = [])"
| "str_includes (x # xs) q = (prefix q (x # xs) \<or> str_includes xs q)"

subsection \<open>\<open>encodeURIComponent\<close>\<close>

text \<open>The unreserved units are the letters, the digits and \<open>- _ . ! ~ * ' ( )\<close>; every
  other unit is written as the percent escapes of its UTF-8 bytes, one byte below 128
  and two bytes from 128 to 255.\<close>

definition unreserved :: "char \<Rightarrow> bool" where
  "unreserved c =
     (c \<in> set (''ABCDEFGHIJKLMNOPQRSTUVWXYZabcdefghijklmnopqrstuvwxyz0123456789-_.!~*()''
               @ [CHR 0x27]))"

definition hex_digit :: "nat \<Rightarrow> char" where
  "hex_digit d = ''0123456789ABCDEF'' ! d"

definition percent :: "nat \<Rightarrow> string" where
  "percent b = [CHR ''%'', hex_digit (b div 16), hex_digit (b mod 16)]"

definition utf8_bytes :: "nat \<Rightarrow> nat list" where
  "utf8_bytes n = (if n < 128 then [n] else [192 + n div 64, 128 + n mod 64])"

definition encode_unit :: "char \<Rightarrow> string" where
  "encode_unit c = (if unreserved c then [c] else concat (map percent (utf8_bytes (of_char c))))"

definition encodeURIComponent :: "string \<Rightarrow> string" where
  "encodeURIComponent s = concat (map encode_unit s)"

section \<open>The search filter\<close>

text \<open>\<open>Array.prototype.filter\<close> with a callback that may throw: the elements are
  tested from the left and the first exception ends the call.\<close>

fun filter_thr :: "('a \<Rightarrow> thrown + bool) \<Rightarrow> 'a list \<Rightarrow> thrown + 'a list" where
  "filter_thr p [] = Inr []"
| "filter_thr p (x # xs) =
     (case p x of
        Inl e \<Rightarrow> Inl e
      | Inr b \<Rightarrow>
          (case filter_thr p xs of
             Inl e \<Rightarrow> Inl e
           | Inr ys \<Rightarrow> Inr (if b then x # ys else ys)))"

text \<open>Whether \<open>v?.toLowerCase().includes(query)\<close> is truthy. The chain stops at a
  nullish \<open>v\<close>; a string is searched; on any other value \<open>toLowerCase\<close> is not a
  function and the call throws.\<close>

fun lower_includes :: "jsval \<Rightarrow> string \<Rightarrow> thrown + bool" where
  "lower_includes JUndefined query = Inr False"
| "lower_includes JNull query = Inr False"
| "lower_includes (JStr s) query = Inr (str_includes (toLowerCase s) query)"
| "lower_includes v query = Inl TypeError"

text \<open>\<open>if (a) return true\<close>, followed by the rest of the callback.\<close>

definition return_true_or :: "thrown + bool \<Rightarrow> thrown + bool \<Rightarrow> thrown + bool" where
  "return_true_or a rest = (case a of Inl e \<Rightarrow> Inl e | Inr t \<Rightarrow> if t then Inr True else rest)"

definition search_callback :: "string \<Rightarrow> DemoWithComponent \<Rightarrow> thrown + bool" where
  "search_callback query c =
     return_true_or (lower_includes (name c) query)
    (return_true_or (lower_includes (opt_prop (component c) ''name'') query)
    (return_true_or (lower_includes (opt_prop (user c) ''name'') query)
    (return_true_or (lower_includes (preview_url c) query)
    (Inr False))))"

text \<open>The function on values: \<open>None\<close> is \<open>undefined\<close>.\<close>

definition filterComponentsBySearch ::
  "DemoWithComponent list option \<Rightarrow> string \<Rightarrow> thrown + DemoWithComponent list option" where
  "filterComponentsBySearch components searchQuery =
     (case components of
        None \<Rightarrow> Inr components
      | Some cs \<Rightarrow>
          if searchQuery = [] then Inr components
          else (case filter_thr (search_callback (toLowerCase searchQuery)) cs of
                  Inl e \<Rightarrow> Inl e
                | Inr ys \<Rightarrow> Inr (Some ys)))"




section \<open>The list component\<close>

datatype UserTab = Components | Demos | Bookmarks

text \<open>What the component reads from a query: its data, \<open>None\<close> while there is none,
  and its loading flag.\<close>

record 'a query_result =
  data :: "'a option"
  isLoading :: bool

type_synonym items_query = "DemoWithComponent list query_result"

text \<open>The \<open>switch\<close> over the tab, followed by \<open>|| []\<close>. An array is truthy, also when
  empty, so only \<open>undefined\<close> is replaced.\<close>

definition allDemos ::
  "UserTab \<Rightarrow> items_query \<Rightarrow> items_query \<Rightarrow> items_query \<Rightarrow> DemoWithComponent list" where
  "allDemos tab publishedQuery likedQuery demosQuery =
     (case (case tab of
              Components \<Rightarrow> data publishedQuery
            | Demos \<Rightarrow> data demosQuery
            | Bookmarks \<Rightarrow> data likedQuery) of
        None \<Rightarrow> []
      | Some xs \<Rightarrow> xs)"

text \<open>\<open>demo.component?.user?.id\<close> and \<open>demo.user?.id\<close>.\<close>

definition componentCreatorId :: "DemoWithComponent \<Rightarrow> jsval" where
  "componentCreatorId demo = opt_prop (opt_prop (component demo) ''user'') ''id''"

definition demoUserId :: "DemoWithComponent \<Rightarrow> jsval" where
  "demoUserId demo = opt_prop (user demo) ''id''"

text \<open>The ownership filters. \<open>===\<close> against the string \<open>userId\<close> holds for that string
  only.\<close>

definition ownership_filter ::
  "UserTab \<Rightarrow> string \<Rightarrow> DemoWithComponent list \<Rightarrow> DemoWithComponent list" where
  "ownership_filter tab userId filtered =
     (if tab = Components then
        filter (\<lambda>demo. componentCreatorId demo = JStr userId) filtered
      else if tab = Demos then
        filter (\<lambda>demo. demoUserId demo = JStr userId \<and> componentCreatorId demo \<noteq> JStr userId)
          filtered
      else filtered)"

text \<open>The memo \<open>components\<close>.\<close>

definition components ::
  "UserTab \<Rightarrow> string \<Rightarrow> string \<Rightarrow> items_query \<Rightarrow> items_query \<Rightarrow> items_query
     \<Rightarrow> thrown + DemoWithComponent list" where
  "components tab userId searchQuery publishedQuery likedQuery demosQuery =
     (case filterComponentsBySearch
             (Some (allDemos tab publishedQuery likedQuery demosQuery)) searchQuery of
        Inl e \<Rightarrow> Inl e
      | Inr r \<Rightarrow>
          Inr (ownership_filter tab userId (case r of None \<Rightarrow> [] | Some xs \<Rightarrow> xs)))"

text \<open>The memo \<open>isLoading\<close> of the component.\<close>

definition tab_isLoading ::
  "UserTab \<Rightarrow> items_query \<Rightarrow> items_query \<Rightarrow> items_query \<Rightarrow> bool" where
  "tab_isLoading tab publishedQuery likedQuery demosQuery =
     (case tab of
        Components \<Rightarrow> isLoading publishedQuery
      | Demos \<Rightarrow> isLoading demosQuery
      | Bookmarks \<Rightarrow> isLoading likedQuery)"

definition showSkeleton :: "bool \<Rightarrow> DemoWithComponent list \<Rightarrow> string \<Rightarrow> bool" where
  "showSkeleton loading comps searchQuery = (loading \<or> (length comps = 0 \<and> searchQuery = []))"

definition showEmptyState :: "bool \<Rightarrow> DemoWithComponent list \<Rightarrow> string \<Rightarrow> bool" where
  "showEmptyState loading comps searchQuery =
     (\<not> loading \<and> length comps = 0 \<and> searchQuery \<noteq> [])"

text \<open>What the component returns: the panel \<open>EmptyLikedState\<close>, or the grid holding
  skeleton cards, the panel for a search without results, or one card per item.\<close>

datatype view =
    EmptyLikedState
  | Skeletons nat
  | EmptySearch string
  | Cards "DemoWithComponent list"

definition UserItemsList ::
  "nat option \<Rightarrow> string \<Rightarrow> UserTab \<Rightarrow> string \<Rightarrow> items_query \<Rightarrow> items_query \<Rightarrow> items_query
     \<Rightarrow> thrown + view" where
  "UserItemsList skeletonCount userId tab searchQuery publishedQuery likedQuery demosQuery =
     (case components tab userId searchQuery publishedQuery likedQuery demosQuery of
        Inl e \<Rightarrow> Inl e
      | Inr comps \<Rightarrow>
          (let loading = tab_isLoading tab publishedQuery likedQuery demosQuery
           in if tab = Bookmarks \<and> \<not> loading \<and> length comps = 0 \<and> searchQuery = []
              then Inr EmptyLikedState
              else if showSkeleton loading comps searchQuery
              then Inr (Skeletons (case skeletonCount of None \<Rightarrow> 12 | Some n \<Rightarrow> n))
              else if showEmptyState loading comps searchQuery
              then Inr (EmptySearch searchQuery)
              else Inr (Cards comps)))"

subsection \<open>Global search\<close>

text \<open>The router is the list of the paths pushed so far.\<close>

type_synonym router = "string list"

definition router_push :: "router \<Rightarrow> string \<Rightarrow> router" where
  "router_push rt path = rt @ [path]"

definition handleGlobalSearch :: "string \<Rightarrow> router \<Rightarrow> router" where
  "handleGlobalSearch searchQuery rt =
     (if searchQuery = [] then rt
      else router_push rt (''/q/'' @ encodeURIComponent searchQuery))"

text \<open>The two triggers: the button of the empty-search panel, and the shortcut, whose
  callback is rebuilt whenever the search text changes.\<close>

datatype trigger = SearchEverywhereClick | ModEnterHotkey

definition on_trigger :: "trigger \<Rightarrow> string \<Rightarrow> router \<Rightarrow> router" where
  "on_trigger t searchQuery rt =
     (case t of
        SearchEverywhereClick \<Rightarrow> handleGlobalSearch searchQuery rt
      | ModEnterHotkey \<Rightarrow> handleGlobalSearch searchQuery rt)"

section \<open>Queries\<close>

text \<open>A call to the backend: a remote procedure with its named arguments, or the
  single-row lookup \<open>from(t).select(c).eq(k, v).single()\<close>. The backend client
  resolves to an object with the fields \<open>data\<close> and \<open>error\<close>.\<close>

datatype request =
    Rpc string "(string \<times> jsval) list"
  | SelectSingle string string string jsval

record response =
  response_data :: jsval
  response_error :: jsval

text \<open>An \<open>async\<close> function: it returns, throws, or awaits a request and goes on with
  the response.\<close>

datatype 'a async =
    Done 'a
  | Throw thrown
  | Await request "response \<Rightarrow> 'a async"

text \<open>What has come back so far for the requests awaited, in order: the promise
  resolved with a response, or was rejected.\<close>

datatype reply = Resolved response | Rejected thrown

datatype 'a settled = Running | Returned 'a | Failed thrown

text \<open>Running an \<open>async\<close> function against the replies received so far gives the
  requests it has issued and how far it got.\<close>

primrec run :: "'a async \<Rightarrow> reply list \<Rightarrow> request list \<times> 'a settled" where
  "run (Done v) = (\<lambda>replies. ([], Returned v))"
| "run (Throw e) = (\<lambda>replies. ([], Failed e))"
| "run (Await rq k) =
     (\<lambda>replies.
        case replies of
          [] \<Rightarrow> ([rq], Running)
        | Rejected e # rest \<Rightarrow> ([rq], Failed e)
        | Resolved r # rest \<Rightarrow> (case run (k r) rest of (rqs, s) \<Rightarrow> (rq # rqs, s)))"

text \<open>The options object passed to \<open>useQuery\<close>; an entry that the source leaves out is
  \<open>None\<close>.\<close>

record 'a query_options =
  queryKey :: "jsval list"
  queryFn :: "'a async"
  staleTime :: "nat option"
  enabled :: "bool option"

text \<open>
  The data-fetching library, as far as the hooks rely on it. A query runs its
  \<open>queryFn\<close> unless \<open>enabled\<close> is given and false: the option defaults to true. The
  \<open>data\<close> of a query is what \<open>queryFn\<close> returned, and \<open>undefined\<close> (\<open>None\<close>) while the
  query is disabled, still running or failed.
\<close>

definition query_enabled :: "'a query_options \<Rightarrow> bool" where
  "query_enabled opts = (case enabled opts of None \<Rightarrow> True | Some b \<Rightarrow> b)"

definition query_requests :: "'a query_options \<Rightarrow> reply list \<Rightarrow> request list" where
  "query_requests opts replies =
     (if query_enabled opts then fst (run (queryFn opts) replies) else [])"

definition query_data :: "'a query_options \<Rightarrow> reply list \<Rightarrow> 'a option" where
  "query_data opts replies =
     (if query_enabled opts
      then (case snd (run (queryFn opts) replies) of Returned v \<Rightarrow> Some v | _ \<Rightarrow> None)
      else None)"

subsection \<open>The per-tab fetchers\<close>

fun map_thr :: "('a \<Rightarrow> thrown + 'b) \<Rightarrow> 'a list \<Rightarrow> thrown + 'b list" where
  "map_thr f [] = Inr []"
| "map_thr f (x # xs) =
     (case f x of
        Inl e \<Rightarrow> Inl e
      | Inr y \<Rightarrow> (case map_thr f xs of Inl e \<Rightarrow> Inl e | Inr ys \<Rightarrow> Inr (y # ys)))"

text \<open>\<open>v.map(f)\<close>: only an array has the method.\<close>

definition array_map :: "(jsval \<Rightarrow> thrown + 'b) \<Rightarrow> jsval \<Rightarrow> thrown + 'b list" where
  "array_map f v = (case v of JArr xs \<Rightarrow> map_thr f xs | _ \<Rightarrow> Inl TypeError)"

definition return_or_throw :: "thrown + 'a \<Rightarrow> 'a async" where
  "return_or_throw r = (case r of Inl e \<Rightarrow> Throw e | Inr v \<Rightarrow> Done v)"

definition useUserPublishedDemos :: "string \<Rightarrow> DemoWithComponent list query_options" where
  "useUserPublishedDemos userId =
     \<lparr> queryKey = [JStr ''user-published-demos'', JStr userId],
       queryFn =
         Await (Rpc ''get_user_profile_demos''
                  [(''p_user_id'', JStr userId), (''p_include_private'', JBool False)])
           (\<lambda>r. if truthy (response_error r) then Throw (Thrown (response_error r))
                else return_or_throw (array_map transformDemoData (response_data r))),
       staleTime = Some (30 * 1000),
       enabled = None \<rparr>"

definition useUserLikedComponents :: "string \<Rightarrow> DemoWithComponent list query_options" where
  "useUserLikedComponents userId =
     \<lparr> queryKey = [JStr ''user-liked-components'', JStr userId],
       queryFn =
         Await (Rpc ''get_user_liked_components''
                  [(''p_user_id'', JStr userId), (''p_include_private'', JBool False)])
           (\<lambda>r. if truthy (response_error r) then Throw (Thrown (response_error r))
                else return_or_throw (array_map transformDemoData (response_data r))),
       staleTime = Some (30 * 1000),
       enabled = None \<rparr>"

definition useUserDemos :: "string \<Rightarrow> DemoWithComponent list query_options" where
  "useUserDemos userId =
     \<lparr> queryKey = [JStr ''user-demos'', JStr userId],
       queryFn =
         Await (Rpc ''get_user_profile_demos''
                  [(''p_user_id'', JStr userId), (''p_include_private'', JBool False)])
           (\<lambda>r. if truthy (response_error r) then Throw (Thrown (response_error r))
                else return_or_throw (array_map transformDemoData (response_data r))),
       staleTime = Some (30 * 1000),
       enabled = None \<rparr>"

text \<open>The three hook calls of \<open>UserItemsList\<close>: \<open>publishedQuery\<close>, \<open>likedQuery\<close> and
  \<open>demosQuery\<close>.\<close>

definition UserItemsList_queries ::
  "UserTab \<Rightarrow> string \<Rightarrow> DemoWithComponent list query_options list" where
  "UserItemsList_queries tab userId =
     [useUserPublishedDemos (if tab = Components then userId else []),
      useUserLikedComponents (if tab = Bookmarks then userId else []),
      useUserDemos (if tab = Demos then userId else [])]"

subsection \<open>The admin check\<close>

text \<open>\<open>usr\<close> is the \<open>user\<close> that the authentication hook returns: \<open>undefined\<close> or
  \<open>null\<close> when nobody is signed in, else an object with the field \<open>id\<close>.\<close>

definition useIsAdmin_query :: "jsval \<Rightarrow> jsval query_options" where
  "useIsAdmin_query usr =
     \<lparr> queryKey = [JStr ''user'', opt_prop usr ''id'', JStr ''isAdmin''],
       queryFn =
         (if \<not> truthy (opt_prop usr ''id'') then Done (JBool False)
          else Await (SelectSingle ''users'' ''is_admin'' ''id'' (opt_prop usr ''id''))
                 (\<lambda>r. Done (js_coalesce (opt_prop (response_data r) ''is_admin'') (JBool False)))),
       staleTime = None,
       enabled = Some (truthy (opt_prop usr ''id'')) \<rparr>"

text \<open>The destructuring default \<open>= false\<close> applies when \<open>data\<close> is \<open>undefined\<close>.\<close>

definition useIsAdmin :: "jsval \<Rightarrow> reply list \<Rightarrow> jsval" where
  "useIsAdmin usr replies =
     (case query_data (useIsAdmin_query usr) replies of
        None \<Rightarrow> JBool False
      | Some v \<Rightarrow> if v = JUndefined then JBool False else v)"

section \<open>Notions of the specification\<close>





text \<open>The source calls \<open>toLowerCase\<close> on these four fields under an optional chain,
  which its type checker accepts for strings that may be absent: the declared type of
  the fields.\<close>

definition string_or_absent :: "jsval \<Rightarrow> bool" where
  "string_or_absent v =
     (case v of JUndefined \<Rightarrow> True | JNull \<Rightarrow> True | JStr s \<Rightarrow> True | _ \<Rightarrow> False)"

definition search_fields_typed :: "DemoWithComponent \<Rightarrow> bool" where
  "search_fields_typed c =
     (string_or_absent (name c)
    \<and> string_or_absent (opt_prop (component c) ''name'')
    \<and> string_or_absent (opt_prop (user c) ''name'')
    \<and> string_or_absent (preview_url c))"

text \<open>An identifier whose \<open>toString\<close> every engine provides: a number, a string or a
  boolean.\<close>

definition primitive_id :: "jsval \<Rightarrow> bool" where
  "primitive_id v = (case v of JNum n \<Rightarrow> True | JStr s \<Rightarrow> True | JBool b \<Rightarrow> True | _ \<Rightarrow> False)"

subsection \<open>Sample data\<close>

text \<open>A row as the remote procedures return it, with the name of the demo, the
  identifier of its author and the identifier of the owner of its component, and the
  item it is normalized to.\<close>

definition sample_row :: "string \<Rightarrow> string \<Rightarrow> string \<Rightarrow> jsval" where
  "sample_row nm author owner =
     JObj [(''id'', JNum (number_of_nat 1)), (''name'', JStr nm),
           (''user_data'', JObj [(''id'', JStr author)]),
           (''component_data'', JObj [(''id'', JNum (number_of_nat 2))]),
           (''component_user_data'', JObj [(''id'', JStr owner)])]"

definition sample_item :: "string \<Rightarrow> string \<Rightarrow> string \<Rightarrow> DemoWithComponent" where
  "sample_item nm author owner =
     \<lparr> id' = ''1'', name = JStr nm, demo_slug = JUndefined, preview_url = JUndefined,
       video_url = JUndefined, updated_at = JUndefined, created_at = JUndefined,
       user = JObj [(''id'', JStr author)], user_id = JStr author,
       component_id = JNum (number_of_nat 2),
       demo_code = JStr [], demo_dependencies = JObj [],
       demo_direct_registry_dependencies = JObj [], compiled_css = JUndefined,
       component =
         JObj [(''id'', JNum (number_of_nat 2)), (''user'', JObj [(''id'', JStr owner)])],
       tags = JArr [], embedding = JNull, embedding_oai = JNull, fts = JNull,
       pro_preview_image_url = JNull, view_count = JNum (number_of_nat 0) \<rparr>"

definition loaded :: "DemoWithComponent list \<Rightarrow> items_query" where
  "loaded xs = \<lparr> data = Some xs, isLoading = False \<rparr>"

definition ok_response :: "jsval \<Rightarrow> response" where
  "ok_response d = \<lparr> response_data = d, response_error = JNull \<rparr>"

section \<open>Normalization of rows\<close>

lemma toString_throws_TypeError:
  "toString v = Inl e \<Longrightarrow> e = TypeError"
  "join_elems vs = Inl e \<Longrightarrow> e = TypeError"
  by (induction v and vs arbitrary: e and e rule: toString_join_elems.induct)
     (auto split: if_splits sum.splits)

lemma toString_primitive_id: "primitive_id v \<Longrightarrow> \<exists>s. toString v = Inr s"
  by (cases v) (simp_all add: primitive_id_def)

lemma transformDemoData_nullish_row: "nullish row \<Longrightarrow> transformDemoData row = Inl TypeError"
  by (simp add: transformDemoData_def get_prop_def)

lemma transformDemoData_nullish_id:
  "nullish (js_prop row ''id'') \<Longrightarrow> transformDemoData row = Inl TypeError"
  by (auto simp: transformDemoData_def get_prop_def nullish_def)

lemma transformDemoData_Inl:
  assumes "transformDemoData row = Inl e"
  shows "e = TypeError \<and> (nullish row \<or> toString (js_prop row ''id'') = Inl TypeError)"
proof (cases "nullish row")
  case True
  with assms show ?thesis by (simp add: transformDemoData_nullish_row)
next
  case False
  with assms have "toString (js_prop row ''id'') = Inl e"
    by (simp add: transformDemoData_def get_prop_def split: sum.splits)
  then show ?thesis using toString_throws_TypeError(1) by blast
qed

lemma transformDemoData_Inr:
  assumes "\<not> nullish row" and "toString (js_prop row ''id'') = Inr s"
  shows "\<exists>r. transformDemoData row = Inr r \<and> id' r = s"
  using assms by (simp add: transformDemoData_def get_prop_def)

lemma transformDemoData_fields:
  assumes "transformDemoData row = Inr r"
  shows "demo_code r = js_or (opt_prop (js_prop row ''component_data'') ''demo_code'') (JStr [])"
    and "demo_dependencies r
           = js_or (opt_prop (js_prop row ''component_data'') ''dependencies'') (JObj [])"
    and "view_count r = js_or (js_prop row ''view_count'') (JNum (number_of_nat 0))"
    and "user_id r = opt_prop (js_prop row ''user_data'') ''id''"
    and "component_id r = opt_prop (js_prop row ''component_data'') ''id''"
    and "compiled_css r = opt_prop (js_prop row ''component_data'') ''compiled_css''"
    and "tags r = JArr []" and "embedding r = JNull" and "embedding_oai r = JNull"
    and "fts r = JNull" and "pro_preview_image_url r = JNull"
  using assms by (auto simp: transformDemoData_def split: sum.splits)

text \<open>
  Claim C10 fails as stated: an identifier that is not null can still lack a callable
  \<open>toString\<close>. The row \<open>{ id: { toString: null } }\<close> has one, and normalizing it throws.
\<close>

theorem transformDemoData_id_without_toString_counterexample:
  "\<not> nullish (JObj [(''id'', JObj [(''toString'', JNull)])])
 \<and> js_prop (JObj [(''id'', JObj [(''toString'', JNull)])]) ''id'' = JObj [(''toString'', JNull)]
 \<and> \<not> nullish (JObj [(''toString'', JNull)])
 \<and> transformDemoData (JObj [(''id'', JObj [(''toString'', JNull)])]) = Inl TypeError"
  by (simp add: nullish_def js_prop_def transformDemoData_def get_prop_def)

text \<open>
  Claim C10, amended. \<open>transformDemoData\<close> calls \<open>data.id.toString()\<close> without a guard.
  It throws a \<open>TypeError\<close> when the row or its \<open>id\<close> is \<open>undefined\<close> or \<open>null\<close>, and
  whenever it throws, the exception is a \<open>TypeError\<close> and comes from that call: the row
  is nullish or the \<open>toString()\<close> of its \<open>id\<close> fails. For every other row it returns an
  item whose \<open>id\<close> is that string; in particular for every row whose \<open>id\<close> is a number
  (any double, in the notation of \<open>Number.prototype.toString\<close>), a string or a boolean. In the item, \<open>demo_code\<close> is the empty string,
  \<open>demo_dependencies\<close> the empty object and \<open>view_count\<close> 0 when the value of the row
  is absent or falsy, and that value otherwise; the reads under \<open>user_data\<close> and
  \<open>component_data\<close> give \<open>undefined\<close> when these are absent; \<open>tags\<close> is always the
  empty list, and \<open>embedding\<close>, \<open>embedding_oai\<close>, \<open>fts\<close> and
  \<open>pro_preview_image_url\<close> are always \<open>null\<close>.
\<close>

theorem transformDemoData_faults_and_defaults:
  "(nullish row \<or> nullish (js_prop row ''id'') \<longrightarrow> transformDemoData row = Inl TypeError)
 \<and> (transformDemoData row = Inl e \<longrightarrow>
       e = TypeError \<and> (nullish row \<or> toString (js_prop row ''id'') = Inl TypeError))
 \<and> (\<not> nullish row \<and> toString (js_prop row ''id'') = Inr s \<longrightarrow>
       (\<exists>r. transformDemoData row = Inr r \<and> id' r = s))
 \<and> (\<not> nullish row \<and> primitive_id (js_prop row ''id'') \<longrightarrow> (\<exists>r. transformDemoData row = Inr r))
 \<and> (transformDemoData row = Inr r \<longrightarrow>
       demo_code r =
         (if truthy (opt_prop (js_prop row ''component_data'') ''demo_code'')
          then opt_prop (js_prop row ''component_data'') ''demo_code'' else JStr [])
     \<and> demo_dependencies r =
         (if truthy (opt_prop (js_prop row ''component_data'') ''dependencies'')
          then opt_prop (js_prop row ''component_data'') ''dependencies'' else JObj [])
     \<and> view_count r =
         (if truthy (js_prop row ''view_count'') then js_prop row ''view_count''
          else JNum (number_of_nat 0))
     \<and> (nullish (js_prop row ''user_data'') \<longrightarrow> user_id r = JUndefined)
     \<and> (nullish (js_prop row ''component_data'') \<longrightarrow>
          component_id r = JUndefined \<and> compiled_css r = JUndefined
        \<and> demo_code r = JStr [] \<and> demo_dependencies r = JObj [])
     \<and> tags r = JArr [] \<and> embedding r = JNull \<and> embedding_oai r = JNull
     \<and> fts r = JNull \<and> pro_preview_image_url r = JNull)"
proof -
  have 1: "transformDemoData row = Inl TypeError" if "nullish row \<or> nullish (js_prop row ''id'')"
    using that transformDemoData_nullish_row transformDemoData_nullish_id by blast
  have 2: "\<exists>r. transformDemoData row = Inr r"
    if "\<not> nullish row \<and> primitive_id (js_prop row ''id'')"
    using that toString_primitive_id transformDemoData_Inr by blast
  have 3: "user_id r = JUndefined"
    if "transformDemoData row = Inr r" "nullish (js_prop row ''user_data'')"
    using that by (simp add: transformDemoData_fields opt_prop_def)
  have 4: "component_id r = JUndefined \<and> compiled_css r = JUndefined
         \<and> demo_code r = JStr [] \<and> demo_dependencies r = JObj []"
    if "transformDemoData row = Inr r" "nullish (js_prop row ''component_data'')"
    using that by (simp add: transformDemoData_fields opt_prop_def js_or_def)
  have 5: "demo_code r =
         (if truthy (opt_prop (js_prop row ''component_data'') ''demo_code'')
          then opt_prop (js_prop row ''component_data'') ''demo_code'' else JStr [])
     \<and> demo_dependencies r =
         (if truthy (opt_prop (js_prop row ''component_data'') ''dependencies'')
          then opt_prop (js_prop row ''component_data'') ''dependencies'' else JObj [])
     \<and> view_count r =
         (if truthy (js_prop row ''view_count'') then js_prop row ''view_count''
          else JNum (number_of_nat 0))
     \<and> tags r = JArr [] \<and> embedding r = JNull \<and> embedding_oai r = JNull
     \<and> fts r = JNull \<and> pro_preview_image_url r = JNull"
    if "transformDemoData row = Inr r"
    using that by (simp add: transformDemoData_fields js_or_def)
  from 1 2 3 4 5 transformDemoData_Inl[of row e] transformDemoData_Inr[of row s]
  show ?thesis by blast
qed

theorem transformDemoData_faults_and_defaults_witness:
  "transformDemoData JNull = Inl TypeError
 \<and> transformDemoData (JObj [(''name'', JStr ''no id'')]) = Inl TypeError
 \<and> transformDemoData (sample_row ''Card'' ''u1'' ''u2'') = Inr (sample_item ''Card'' ''u1'' ''u2'')
 \<and> demo_code (sample_item ''Card'' ''u1'' ''u2'') = JStr []
 \<and> view_count (sample_item ''Card'' ''u1'' ''u2'') = JNum (number_of_nat 0)
 \<and> (\<exists>r. transformDemoData (JObj [(''id'', JNum (NumFinite False 1 22))]) = Inr r
        \<and> id' r = ''1e+21'')
 \<and> (\<exists>r. transformDemoData (JObj [(''id'', JNum (NumFinite True 125 1))]) = Inr r
        \<and> id' r = ''-1.25'')"
proof -
  let ?row = "sample_row ''Card'' ''u1'' ''u2''"
  let ?item = "sample_item ''Card'' ''u1'' ''u2''"
  have a: "nullish JNull \<or> nullish (js_prop JNull ''id'')"
    by (simp add: nullish_def)
  have b: "nullish (JObj [(''name'', JStr ''no id'')])
         \<or> nullish (js_prop (JObj [(''name'', JStr ''no id'')]) ''id'')"
    by code_simp
  have c: "\<not> nullish ?row \<and> toString (js_prop ?row ''id'') = Inr ''1''"
    by code_simp
  have d: "\<not> nullish ?row \<and> primitive_id (js_prop ?row ''id'')"
    by code_simp
  have e: "transformDemoData ?row = Inr ?item"
    by code_simp
  have f: "demo_code ?item = JStr [] \<and> view_count ?item = JNum (number_of_nat 0)"
    by (simp add: sample_item_def)
  have g: "\<not> nullish (JObj [(''id'', JNum (NumFinite False 1 22))])
         \<and> toString (js_prop (JObj [(''id'', JNum (NumFinite False 1 22))]) ''id'')
             = Inr ''1e+21''"
    by code_simp
  have h: "\<not> nullish (JObj [(''id'', JNum (NumFinite True 125 1))])
         \<and> toString (js_prop (JObj [(''id'', JNum (NumFinite True 125 1))]) ''id'')
             = Inr ''-1.25''"
    by code_simp
  from transformDemoData_faults_and_defaults[of JNull]
       transformDemoData_faults_and_defaults[of "JObj [(''name'', JStr ''no id'')]"]
       transformDemoData_faults_and_defaults[of ?row _ "''1''" ?item]
       a b c d e f
  have 1: "transformDemoData JNull = Inl TypeError
         \<and> transformDemoData (JObj [(''name'', JStr ''no id'')]) = Inl TypeError
         \<and> transformDemoData ?row = Inr ?item
         \<and> demo_code ?item = JStr [] \<and> view_count ?item = JNum (number_of_nat 0)"
    by blast
  from transformDemoData_faults_and_defaults
         [of "JObj [(''id'', JNum (NumFinite False 1 22))]" _ "''1e+21''"] g
  have 2: "\<exists>r. transformDemoData (JObj [(''id'', JNum (NumFinite False 1 22))]) = Inr r
             \<and> id' r = ''1e+21''"
    by blast
  from transformDemoData_faults_and_defaults
         [of "JObj [(''id'', JNum (NumFinite True 125 1))]" _ "''-1.25''"] h
  have 3: "\<exists>r. transformDemoData (JObj [(''id'', JNum (NumFinite True 125 1))]) = Inr r
             \<and> id' r = ''-1.25''"
    by blast
  from 1 2 3 show ?thesis by blast
qed

section \<open>Properties of the search filter\<close>












text \<open>Normalization copies the four searched fields from the row, so a row that has
  them as strings, or not at all, gives an item of the declared type.\<close>

lemma spread_with_user_name:
  "opt_prop (spread_with_user src u) ''name'' = opt_prop src ''name''"
proof (cases "nullish src")
  case True
  then have "own_props src = []"
    by (auto simp: nullish_def)
  then show ?thesis
    using True by (simp add: spread_with_user_def opt_prop_def js_prop_def nullish_def)
next
  case False
  then show ?thesis
    by (simp add: spread_with_user_def opt_prop_def js_prop_def nullish_def update_conv')
qed

lemma transformDemoData_search_fields_typed:
  assumes "transformDemoData row = Inr c"
      and "string_or_absent (js_prop row ''name'')"
      and "string_or_absent (opt_prop (js_prop row ''component_data'') ''name'')"
      and "string_or_absent (opt_prop (js_prop row ''user_data'') ''name'')"
      and "string_or_absent (js_prop row ''preview_url'')"
  shows "search_fields_typed c"
proof -
  from assms(1) have "name c = js_prop row ''name''"
    and "preview_url c = js_prop row ''preview_url''"
    and "user c = js_prop row ''user_data''"
    and "component c
           = spread_with_user (js_prop row ''component_data'') (js_prop row ''component_user_data'')"
    by (auto simp: transformDemoData_def split: sum.splits)
  with assms(2-5) show ?thesis
    by (simp add: search_fields_typed_def spread_with_user_name)
qed

lemma filterComponentsBySearch_Some:
  "filterComponentsBySearch (Some cs) q = Inr r \<Longrightarrow> \<exists>ys. r = Some ys"
  by (auto simp: filterComponentsBySearch_def split: if_splits sum.splits)



section \<open>The ownership filter\<close>

text \<open>
  Claim C3. The collection that the component shows is the search result passed
  through the filter of the tab. On the tab \<open>components\<close> an item is kept exactly when
  the identifier of the owner of its component is the requested user, so an item with
  another owner is not in the final collection. On the tab \<open>demos\<close> an item is kept
  exactly when its author is the requested user and the owner of its component is not.
  On the tab \<open>bookmarks\<close> the search result is the final collection.
\<close>

theorem ownership_post_filter:
  assumes "components tab userId q pq lq dq = Inr final"
  shows "\<exists>searched.
           filterComponentsBySearch (Some (allDemos tab pq lq dq)) q = Inr (Some searched)
         \<and> (tab = Components \<longrightarrow>
              final = filter (\<lambda>d. componentCreatorId d = JStr userId) searched
            \<and> (\<forall>d \<in> set searched. componentCreatorId d \<noteq> JStr userId \<longrightarrow> d \<notin> set final))
         \<and> (tab = Demos \<longrightarrow>
              final = filter (\<lambda>d. demoUserId d = JStr userId
                                 \<and> componentCreatorId d \<noteq> JStr userId) searched)
         \<and> (tab = Bookmarks \<longrightarrow> final = searched)"
proof -
  from assms obtain r
    where r: "filterComponentsBySearch (Some (allDemos tab pq lq dq)) q = Inr r"
      and f: "final = ownership_filter tab userId (case r of None \<Rightarrow> [] | Some xs \<Rightarrow> xs)"
    by (auto simp: components_def split: sum.splits)
  from filterComponentsBySearch_Some[OF r] obtain ys where ys: "r = Some ys"
    by blast
  show ?thesis
    using r f ys by (auto simp: ownership_filter_def)
qed

theorem ownership_post_filter_witness:
  "components Components ''u1'' []
     (loaded [sample_item ''A'' ''u1'' ''u2'', sample_item ''B'' ''u1'' ''u1''])
     (loaded []) (loaded [])
     = Inr [sample_item ''B'' ''u1'' ''u1'']
 \<and> components Demos ''u1'' [] (loaded []) (loaded [])
     (loaded [sample_item ''A'' ''u1'' ''u2'', sample_item ''B'' ''u1'' ''u1''])
     = Inr [sample_item ''A'' ''u1'' ''u2'']
 \<and> components Bookmarks ''u1'' [] (loaded [])
     (loaded [sample_item ''A'' ''u1'' ''u2'', sample_item ''B'' ''u1'' ''u1''])
     (loaded [])
     = Inr [sample_item ''A'' ''u1'' ''u2'', sample_item ''B'' ''u1'' ''u1'']"
proof -
  let ?xs = "[sample_item ''A'' ''u1'' ''u2'', sample_item ''B'' ''u1'' ''u1'']"
  have 1: "components Components ''u1'' [] (loaded ?xs) (loaded []) (loaded [])
             = Inr [sample_item ''B'' ''u1'' ''u1'']"
    by code_simp
  have 2: "components Demos ''u1'' [] (loaded []) (loaded []) (loaded ?xs)
             = Inr [sample_item ''A'' ''u1'' ''u2'']"
    by code_simp
  have 3: "components Bookmarks ''u1'' [] (loaded []) (loaded ?xs) (loaded []) = Inr ?xs"
    by code_simp
  show ?thesis
    using ownership_post_filter[OF 1] ownership_post_filter[OF 2] ownership_post_filter[OF 3]
          1 2 3
    by simp
qed

section \<open>The render decision\<close>

text \<open>
  Claim C4 fails as stated. On the tab \<open>bookmarks\<close>, with loading finished, an empty
  collection and an empty search, the rule of the claim asks for the skeleton
  placeholders, and the component returns the empty-bookmarks panel.
\<close>

theorem skeleton_rule_counterexample:
  "components Bookmarks ''u1'' [] (loaded []) (loaded []) (loaded []) = Inr []
 \<and> tab_isLoading Bookmarks (loaded []) (loaded []) (loaded []) = False
 \<and> UserItemsList None ''u1'' Bookmarks [] (loaded []) (loaded []) (loaded [])
     = Inr EmptyLikedState
 \<and> UserItemsList None ''u1'' Bookmarks [] (loaded []) (loaded []) (loaded [])
     \<noteq> Inr (Skeletons 12)"
  by (simp add: UserItemsList_def components_def tab_isLoading_def loaded_def allDemos_def
      filterComponentsBySearch_def ownership_filter_def)

text \<open>
  Claim C4, amended. Outside the empty-bookmarks case (tab \<open>bookmarks\<close>, not loading,
  empty filtered collection, empty search), the render decision follows from the
  loading flag of the active tab, the filtered collection and the search query: the
  skeleton placeholders are shown exactly when loading, or when the collection is empty
  and the query is empty; the empty-search panel is shown exactly when not loading,
  the collection is empty and the query is not empty; otherwise the grid of the items
  is shown.
\<close>

theorem render_decision:
  assumes comps: "components tab userId q pq lq dq = Inr comps"
      and generic:
        "\<not> (tab = Bookmarks \<and> \<not> tab_isLoading tab pq lq dq \<and> comps = [] \<and> q = [])"
  shows "(UserItemsList sk userId tab q pq lq dq
            = Inr (Skeletons (case sk of None \<Rightarrow> 12 | Some n \<Rightarrow> n))
            \<longleftrightarrow> tab_isLoading tab pq lq dq \<or> (comps = [] \<and> q = []))
       \<and> (UserItemsList sk userId tab q pq lq dq = Inr (EmptySearch q)
            \<longleftrightarrow> \<not> tab_isLoading tab pq lq dq \<and> comps = [] \<and> q \<noteq> [])
       \<and> (UserItemsList sk userId tab q pq lq dq = Inr (Cards comps)
            \<longleftrightarrow> \<not> (tab_isLoading tab pq lq dq \<or> (comps = [] \<and> q = []))
              \<and> \<not> (\<not> tab_isLoading tab pq lq dq \<and> comps = [] \<and> q \<noteq> []))
       \<and> UserItemsList sk userId tab q pq lq dq \<noteq> Inr EmptyLikedState"
  using comps generic
  by (auto simp: UserItemsList_def showSkeleton_def showEmptyState_def Let_def)

theorem render_decision_witness:
  "UserItemsList None ''u1'' Demos ''button'' (loaded []) (loaded [])
     (loaded [sample_item ''Card'' ''u1'' ''u2''])
     = Inr (EmptySearch ''button'')
 \<and> UserItemsList None ''u1'' Demos [] (loaded []) (loaded []) (loaded []) = Inr (Skeletons 12)
 \<and> UserItemsList None ''u1'' Demos ''card'' (loaded []) (loaded [])
     (loaded [sample_item ''Card'' ''u1'' ''u2''])
     = Inr (Cards [sample_item ''Card'' ''u1'' ''u2''])"
proof -
  let ?dq = "loaded [sample_item ''Card'' ''u1'' ''u2'']"
  have c1: "components Demos ''u1'' ''button'' (loaded []) (loaded []) ?dq = Inr []"
    by code_simp
  have g1: "\<not> (Demos = Bookmarks \<and> \<not> tab_isLoading Demos (loaded []) (loaded []) ?dq
               \<and> ([]::DemoWithComponent list) = [] \<and> ''button'' = [])"
    by simp
  have c2: "components Demos ''u1'' [] (loaded []) (loaded []) (loaded []) = Inr []"
    by code_simp
  have g2: "\<not> (Demos = Bookmarks \<and> \<not> tab_isLoading Demos (loaded []) (loaded []) (loaded [])
               \<and> ([]::DemoWithComponent list) = [] \<and> ([]::string) = [])"
    by simp
  have c3: "components Demos ''u1'' ''card'' (loaded []) (loaded []) ?dq
              = Inr [sample_item ''Card'' ''u1'' ''u2'']"
    by code_simp
  have g3: "\<not> (Demos = Bookmarks \<and> \<not> tab_isLoading Demos (loaded []) (loaded []) ?dq
               \<and> [sample_item ''Card'' ''u1'' ''u2''] = [] \<and> ''card'' = [])"
    by simp
  have l: "\<not> tab_isLoading Demos (loaded []) (loaded []) ?dq"
          "\<not> tab_isLoading Demos (loaded []) (loaded []) (loaded [])"
    by (simp_all add: tab_isLoading_def loaded_def)
  show ?thesis
    using render_decision[OF c1 g1, of None] render_decision[OF c2 g2, of None]
          render_decision[OF c3 g3, of None] l
    by simp
qed

text \<open>
  Claim C5. On the tab \<open>bookmarks\<close>, when loading is finished, the filtered collection
  has no item and the search query is empty, the component returns the dedicated
  empty-bookmarks panel, not the skeleton grid and not the empty-search panel.
\<close>

theorem empty_bookmarks_panel:
  assumes "tab = Bookmarks"
      and "\<not> tab_isLoading tab pq lq dq"
      and "components tab userId q pq lq dq = Inr comps"
      and "length comps = 0"
      and "q = []"
  shows "UserItemsList sk userId tab q pq lq dq = Inr EmptyLikedState"
  using assms by (simp add: UserItemsList_def)

theorem empty_bookmarks_panel_witness:
  "UserItemsList None ''u1'' Bookmarks []
     (loaded [sample_item ''Card'' ''u1'' ''u1'']) (loaded []) (loaded [])
     = Inr EmptyLikedState"
proof -
  have l: "\<not> tab_isLoading Bookmarks
               (loaded [sample_item ''Card'' ''u1'' ''u1'']) (loaded []) (loaded [])"
    by (simp add: tab_isLoading_def loaded_def)
  have c: "components Bookmarks ''u1'' []
             (loaded [sample_item ''Card'' ''u1'' ''u1'']) (loaded []) (loaded []) = Inr []"
    by code_simp
  show ?thesis
    by (rule empty_bookmarks_panel[OF refl l c]) simp_all
qed

section \<open>Global search\<close>

text \<open>
  Claim C8. Either trigger of the global search, the button or the shortcut, with a
  non-empty search text pushes the path \<open>/q/\<close> followed by the URL-encoding of the
  text, and pushes nothing when the text is empty; the text \<open>button\<close> leads to
  \<open>/q/button\<close>.
\<close>

theorem global_search_navigation:
  "(q \<noteq> [] \<longrightarrow> on_trigger t q rt = rt @ [''/q/'' @ encodeURIComponent q])
 \<and> on_trigger t [] rt = rt
 \<and> on_trigger t ''button'' rt = rt @ [''/q/button'']"
proof -
  have b: "encodeURIComponent ''button'' = ''button''"
    by code_simp
  show ?thesis
    by (cases t) (simp_all add: on_trigger_def handleGlobalSearch_def router_push_def b)
qed

theorem global_search_navigation_witness:
  "on_trigger ModEnterHotkey ''a b/c'' [] = [''/q/a%20b%2Fc'']
 \<and> on_trigger SearchEverywhereClick ''a b/c'' [] = [''/q/a%20b%2Fc'']"
proof -
  have e: "encodeURIComponent ''a b/c'' = ''a%20b%2Fc''"
    by code_simp
  have n: "''a b/c'' \<noteq> []"
    by simp
  show ?thesis
    using global_search_navigation[of "''a b/c''" ModEnterHotkey "[]"]
          global_search_navigation[of "''a b/c''" SearchEverywhereClick "[]"] e n
    by simp
qed

section \<open>The fetchers\<close>

lemma fetchers_enabled:
  "query_enabled (useUserPublishedDemos u)"
  "query_enabled (useUserLikedComponents u)"
  "query_enabled (useUserDemos u)"
  by (simp_all add: query_enabled_def useUserPublishedDemos_def useUserLikedComponents_def
      useUserDemos_def)

text \<open>
  Claim C1, evaluated on the tab \<open>components\<close> for the user \<open>user_1\<close>. None of the
  three fetchers passes \<open>enabled\<close>, so all three queries are enabled, and the two that
  receive the empty string as the user identifier issue their remote procedure call
  with that empty identifier.
\<close>

theorem UserItemsList_queries_all_fire:
  "map query_enabled (UserItemsList_queries Components ''user_1'') = [True, True, True]
 \<and> map (\<lambda>qo. query_requests qo []) (UserItemsList_queries Components ''user_1'')
     = [[Rpc ''get_user_profile_demos''
           [(''p_user_id'', JStr ''user_1''), (''p_include_private'', JBool False)]],
        [Rpc ''get_user_liked_components''
           [(''p_user_id'', JStr []), (''p_include_private'', JBool False)]],
        [Rpc ''get_user_profile_demos''
           [(''p_user_id'', JStr []), (''p_include_private'', JBool False)]]]"
  by (simp add: UserItemsList_queries_def query_requests_def fetchers_enabled)
     (simp add: useUserPublishedDemos_def useUserLikedComponents_def useUserDemos_def)

text \<open>
  Claim C9. For every user identifier the fetcher of the tab \<open>components\<close> and the
  fetcher of the tab \<open>demos\<close> have the same \<open>queryFn\<close>: they issue the same call
  \<open>get_user_profile_demos\<close> with the arguments \<open>p_user_id\<close> and
  \<open>p_include_private = false\<close> and normalize the rows in the same way, so on the same
  replies they hold the same data, and the two tabs search equal collections before
  the ownership filter. Their freshness window and \<open>enabled\<close> entry agree; their cache
  keys differ.
\<close>

theorem published_and_demos_fetch_alike:
  "queryFn (useUserPublishedDemos u) = queryFn (useUserDemos u)
 \<and> query_requests (useUserPublishedDemos u) replies = query_requests (useUserDemos u) replies
 \<and> query_requests (useUserPublishedDemos u) []
     = [Rpc ''get_user_profile_demos''
          [(''p_user_id'', JStr u), (''p_include_private'', JBool False)]]
 \<and> query_data (useUserPublishedDemos u) replies = query_data (useUserDemos u) replies
 \<and> query_data (useUserPublishedDemos u) [Resolved (ok_response (JArr rows))]
     = (case map_thr transformDemoData rows of Inl e \<Rightarrow> None | Inr xs \<Rightarrow> Some xs)
 \<and> staleTime (useUserPublishedDemos u) = staleTime (useUserDemos u)
 \<and> enabled (useUserPublishedDemos u) = enabled (useUserDemos u)
 \<and> queryKey (useUserPublishedDemos u) \<noteq> queryKey (useUserDemos u)
 \<and> allDemos Components
       \<lparr> data = query_data (useUserPublishedDemos u) replies, isLoading = l \<rparr> lq dq
     = allDemos Demos pq' lq'
       \<lparr> data = query_data (useUserDemos u) replies, isLoading = l' \<rparr>
 \<and> filterComponentsBySearch
       (Some (allDemos Components
                \<lparr> data = query_data (useUserPublishedDemos u) replies, isLoading = l \<rparr> lq dq)) q
     = filterComponentsBySearch
       (Some (allDemos Demos pq' lq'
                \<lparr> data = query_data (useUserDemos u) replies, isLoading = l' \<rparr>)) q"
proof -
  have f: "queryFn (useUserPublishedDemos u) = queryFn (useUserDemos u)"
    by (simp add: useUserPublishedDemos_def useUserDemos_def)
  have en: "query_enabled (useUserPublishedDemos u) = query_enabled (useUserDemos u)"
    by (simp add: fetchers_enabled)
  have d: "query_data (useUserPublishedDemos u) replies = query_data (useUserDemos u) replies"
    by (simp add: query_data_def f en)
  have a: "allDemos Components
             \<lparr> data = query_data (useUserPublishedDemos u) replies, isLoading = l \<rparr> lq dq
         = allDemos Demos pq' lq'
             \<lparr> data = query_data (useUserDemos u) replies, isLoading = l' \<rparr>"
    by (simp add: allDemos_def d)
  have r: "query_data (useUserPublishedDemos u) [Resolved (ok_response (JArr rows))]
     = (case map_thr transformDemoData rows of Inl e \<Rightarrow> None | Inr xs \<Rightarrow> Some xs)"
    by (simp add: query_data_def query_enabled_def useUserPublishedDemos_def ok_response_def
        array_map_def return_or_throw_def split: sum.splits)
  show ?thesis
    apply (intro conjI)
    subgoal by (rule f)
    subgoal by (simp add: query_requests_def f en)
    subgoal by (simp add: query_requests_def query_enabled_def useUserPublishedDemos_def)
    subgoal by (rule d)
    subgoal by (rule r)
    subgoal by (simp add: useUserPublishedDemos_def useUserDemos_def)
    subgoal by (simp add: useUserPublishedDemos_def useUserDemos_def)
    subgoal by (simp add: useUserPublishedDemos_def useUserDemos_def)
    subgoal by (rule a)
    subgoal by (simp only: a)
    done
qed

section \<open>The admin check\<close>

lemma opt_prop_nullish: "nullish v \<Longrightarrow> opt_prop v k = JUndefined"
  by (simp add: opt_prop_def)

lemma useIsAdmin_query_enabled:
  "query_enabled (useIsAdmin_query usr) = truthy (opt_prop usr ''id'')"
  by (simp add: useIsAdmin_query_def query_enabled_def)

lemma useIsAdmin_disabled:
  "\<not> truthy (opt_prop usr ''id'') \<Longrightarrow>
     useIsAdmin usr replies = JBool False \<and> query_requests (useIsAdmin_query usr) replies = []"
  by (simp add: useIsAdmin_def query_data_def query_requests_def useIsAdmin_query_enabled)

lemma useIsAdmin_queryFn_signed_in:
  "truthy (opt_prop usr ''id'') \<Longrightarrow>
     queryFn (useIsAdmin_query usr) =
       Await (SelectSingle ''users'' ''is_admin'' ''id'' (opt_prop usr ''id''))
         (\<lambda>r. Done (js_coalesce (opt_prop (response_data r) ''is_admin'') (JBool False)))"
  by (simp add: useIsAdmin_query_def)

lemma useIsAdmin_pending: "useIsAdmin usr [] = JBool False"
  by (cases "truthy (opt_prop usr ''id'')")
     (simp_all add: useIsAdmin_disabled useIsAdmin_def query_data_def useIsAdmin_query_enabled
        useIsAdmin_queryFn_signed_in)

lemma useIsAdmin_rejected: "useIsAdmin usr [Rejected e] = JBool False"
  by (cases "truthy (opt_prop usr ''id'')")
     (simp_all add: useIsAdmin_disabled useIsAdmin_def query_data_def useIsAdmin_query_enabled
        useIsAdmin_queryFn_signed_in)

lemma useIsAdmin_resolved:
  "truthy (opt_prop usr ''id'') \<Longrightarrow>
     useIsAdmin usr [Resolved r] =
       (if nullish (opt_prop (response_data r) ''is_admin'') then JBool False
        else opt_prop (response_data r) ''is_admin'')"
  by (simp add: useIsAdmin_def query_data_def useIsAdmin_query_enabled
      useIsAdmin_queryFn_signed_in js_coalesce_def nullish_def)

lemma useIsAdmin_queryFn_never_throws:
  "snd (run (queryFn (useIsAdmin_query usr)) replies) = Failed x \<Longrightarrow>
     \<exists>rest. replies = Rejected x # rest"
  by (cases "truthy (opt_prop usr ''id'')")
     (auto simp: useIsAdmin_query_def split: list.splits reply.splits prod.splits)

text \<open>
  Claim C6. With no signed-in user the admin hook returns \<open>false\<close> whatever has been
  received, and its query issues no request: the single-row lookup is not executed.
  While the lookup of a signed-in user is pending, the hook returns \<open>false\<close>; the
  query of a signed-in user issues exactly that lookup, and once it has resolved with
  a row whose \<open>is_admin\<close> is \<open>true\<close> the hook returns \<open>true\<close>.
\<close>

theorem useIsAdmin_signed_out_pending_admin:
  "(nullish usr \<longrightarrow>
      useIsAdmin usr replies = JBool False
    \<and> query_requests (useIsAdmin_query usr) replies = [])
 \<and> useIsAdmin usr [] = JBool False
 \<and> (truthy (opt_prop usr ''id'') \<longrightarrow>
      query_requests (useIsAdmin_query usr) []
        = [SelectSingle ''users'' ''is_admin'' ''id'' (opt_prop usr ''id'')])
 \<and> (truthy (opt_prop usr ''id'') \<and> opt_prop (response_data r) ''is_admin'' = JBool True \<longrightarrow>
      useIsAdmin usr [Resolved r] = JBool True)"
proof -
  have 1: "useIsAdmin usr replies = JBool False
         \<and> query_requests (useIsAdmin_query usr) replies = []"
    if "nullish usr"
  proof -
    from that have "\<not> truthy (opt_prop usr ''id'')"
      by (simp add: opt_prop_nullish)
    then show ?thesis
      by (rule useIsAdmin_disabled)
  qed
  have 2: "query_requests (useIsAdmin_query usr) []
             = [SelectSingle ''users'' ''is_admin'' ''id'' (opt_prop usr ''id'')]"
    if "truthy (opt_prop usr ''id'')"
    using that
    by (simp add: query_requests_def useIsAdmin_query_enabled useIsAdmin_queryFn_signed_in)
  have 3: "useIsAdmin usr [Resolved r] = JBool True"
    if "truthy (opt_prop usr ''id'') \<and> opt_prop (response_data r) ''is_admin'' = JBool True"
    using that by (simp add: useIsAdmin_resolved nullish_def)
  from 1 2 3 useIsAdmin_pending[of usr] show ?thesis
    by blast
qed

theorem useIsAdmin_signed_out_pending_admin_witness:
  "useIsAdmin JNull [] = JBool False
 \<and> query_requests (useIsAdmin_query JNull) [] = []
 \<and> useIsAdmin (JObj [(''id'', JStr ''user_1'')]) [] = JBool False
 \<and> query_requests (useIsAdmin_query (JObj [(''id'', JStr ''user_1'')])) []
      = [SelectSingle ''users'' ''is_admin'' ''id'' (JStr ''user_1'')]
 \<and> useIsAdmin (JObj [(''id'', JStr ''user_1'')])
      [Resolved (ok_response (JObj [(''is_admin'', JBool True)]))] = JBool True"
proof -
  let ?u = "JObj [(''id'', JStr ''user_1'')]"
  let ?r = "ok_response (JObj [(''is_admin'', JBool True)])"
  have n: "nullish JNull"
    by (simp add: nullish_def)
  have i: "opt_prop ?u ''id'' = JStr ''user_1''"
    by code_simp
  have t: "truthy (opt_prop ?u ''id'')"
    by (simp add: i)
  have a: "opt_prop (response_data ?r) ''is_admin'' = JBool True"
    by code_simp
  show ?thesis
    using useIsAdmin_signed_out_pending_admin[of JNull "[]"]
          useIsAdmin_signed_out_pending_admin[of ?u "[]" ?r] n i t a
    by simp
qed

text \<open>
  Claim C7. Whenever the lookup brings no data, the admin hook returns \<open>false\<close>: when
  it resolves without a row (\<open>data\<close> is \<open>null\<close>, as for no row and for a failed
  lookup), when the row has no \<open>is_admin\<close> or has it \<open>null\<close>, and when the promise is
  rejected. The query function does not throw on any response, so no error reaches the
  caller.
\<close>

theorem useIsAdmin_absent_data:
  "(nullish (response_data r) \<or> nullish (opt_prop (response_data r) ''is_admin'') \<longrightarrow>
      useIsAdmin usr [Resolved r] = JBool False)
 \<and> useIsAdmin usr [Rejected e] = JBool False
 \<and> snd (run (queryFn (useIsAdmin_query usr)) [Resolved r]) \<noteq> Failed x"
proof (intro conjI impI)
  assume a: "nullish (response_data r) \<or> nullish (opt_prop (response_data r) ''is_admin'')"
  then have n: "nullish (opt_prop (response_data r) ''is_admin'')"
    by (auto simp: opt_prop_nullish nullish_def)
  show "useIsAdmin usr [Resolved r] = JBool False"
  proof (cases "truthy (opt_prop usr ''id'')")
    case True
    then show ?thesis
      using n by (simp add: useIsAdmin_resolved)
  next
    case False
    then show ?thesis
      by (simp add: useIsAdmin_disabled)
  qed
next
  show "useIsAdmin usr [Rejected e] = JBool False"
    by (rule useIsAdmin_rejected)
next
  show "snd (run (queryFn (useIsAdmin_query usr)) [Resolved r]) \<noteq> Failed x"
    using useIsAdmin_queryFn_never_throws[of usr "[Resolved r]" x] by auto
qed

theorem useIsAdmin_absent_data_witness:
  "useIsAdmin (JObj [(''id'', JStr ''user_1'')])
     [Resolved \<lparr> response_data = JNull,
                 response_error = JObj [(''code'', JStr ''PGRST116'')] \<rparr>] = JBool False
 \<and> useIsAdmin (JObj [(''id'', JStr ''user_1'')])
     [Resolved (ok_response (JObj [(''is_admin'', JNull)]))] = JBool False
 \<and> useIsAdmin (JObj [(''id'', JStr ''user_1'')])
     [Resolved (ok_response (JObj []))] = JBool False"
proof -
  let ?u = "JObj [(''id'', JStr ''user_1'')]"
  let ?r1 = "\<lparr> response_data = JNull,
               response_error = JObj [(''code'', JStr ''PGRST116'')] \<rparr>"
  let ?r2 = "ok_response (JObj [(''is_admin'', JNull)])"
  let ?r3 = "ok_response (JObj [])"
  have 1: "nullish (response_data ?r1) \<or> nullish (opt_prop (response_data ?r1) ''is_admin'')"
    by (simp add: nullish_def)
  have 2: "nullish (response_data ?r2) \<or> nullish (opt_prop (response_data ?r2) ''is_admin'')"
    by code_simp
  have 3: "nullish (response_data ?r3) \<or> nullish (opt_prop (response_data ?r3) ''is_admin'')"
    by code_simp
  show ?thesis
    using useIsAdmin_absent_data[of ?r1 ?u] useIsAdmin_absent_data[of ?r2 ?u]
          useIsAdmin_absent_data[of ?r3 ?u] 1 2 3
    by blast
qed

end
